theory Spec2Isabelle
  imports Complex_Main
begin

section \<open>Token validation and refresh coordination (src/lib/server/token.ts)\<close>

text \<open>
  The development embeds the exported functions of \<^verbatim>\<open>token.ts\<close>:
  \<^verbatim>\<open>ValidateAccess\<close>, \<^verbatim>\<open>handleTokenRefresh\<close>, \<^verbatim>\<open>getUserFromToken\<close>,
  \<^verbatim>\<open>isAuthenticated\<close> and \<^verbatim>\<open>requireAuth\<close>, together with the module-level
  \<^verbatim>\<open>refreshingStates\<close> map.

  Everything the module imports is a parameter: the key import and the signature
  verification of the jose library, the private environment, the timer, and the fetch of
  the request event. A thrown value is the \<open>Inl\<close> of a sum; a function that touches the
  shared state takes the world and returns the new one, with the list of the effects it
  performed.
\<close>

subsection \<open>JavaScript values and the decoded payload\<close>

text \<open>
  The values a JSON payload field can hold. Numbers are exact rationals: every finite
  double is one; NaN cannot come out of JSON.
\<close>

datatype jsvalue =
    JUndefined
  | JNull
  | JBool bool
  | JNumber rat
  | JString string
  | JObject

text \<open>JavaScript truthiness, which \<^verbatim>\<open>payload.exp && ...\<close> tests.\<close>

fun truthy :: "jsvalue \<Rightarrow> bool" where
  "truthy JUndefined = False"
| "truthy JNull = False"
| "truthy (JBool b) = b"
| "truthy (JNumber x) = (x \<noteq> 0)"
| "truthy (JString s) = (s \<noteq> [])"
| "truthy JObject = True"

text \<open>\<^verbatim>\<open>typeof v === 'number'\<close>.\<close>

fun is_number :: "jsvalue \<Rightarrow> bool" where
  "is_number (JNumber x) = True"
| "is_number v = False"

record payload =
  exp_claim :: jsvalue
  iss_claim :: jsvalue
  other_claims :: "(string \<times> jsvalue) list"

text \<open>
  A string that may be \<^verbatim>\<open>undefined\<close> (a cookie, a header, an environment variable) is a
  \<open>string option\<close>. JavaScript treats both \<^verbatim>\<open>undefined\<close> and the empty string as false:
  \<open>nonempty\<close> keeps exactly the values that pass \<^verbatim>\<open>if (v)\<close>.
\<close>

definition nonempty :: "string option \<Rightarrow> string option" where
  "nonempty v = (case v of None \<Rightarrow> None | Some s \<Rightarrow> if s = [] then None else Some s)"

text \<open>\<^verbatim>\<open>v || d\<close> on such a string.\<close>

definition or_default :: "string option \<Rightarrow> string \<Rightarrow> string" where
  "or_default v d = (case nonempty v of None \<Rightarrow> d | Some s \<Rightarrow> s)"

subsection \<open>Thrown values\<close>

text \<open>
  Every value the module throws or lets through. The constructors carry the names of the
  error taxonomy; the message of the source is given beside each.
\<close>

datatype thrown =
    KeyImportError string
      \<comment> \<open>thrown by \<^verbatim>\<open>importSPKI\<close>\<close>
  | VerifyError string
      \<comment> \<open>thrown by \<^verbatim>\<open>jwtVerify\<close>: bad signature, wrong issuer, expired, malformed\<close>
  | AboutToExpire
      \<comment> \<open>\<^verbatim>\<open>new Error('Token about to expire')\<close>\<close>
  | MissingRefreshToken
      \<comment> \<open>\<^verbatim>\<open>new Error('No refresh token available')\<close>\<close>
  | RefreshExchangeFailed nat
      \<comment> \<open>\<^verbatim>\<open>new Error(`Refresh failed with status: ${refreshRes.status}`)\<close>\<close>
  | MissingIssuedCredential
      \<comment> \<open>\<^verbatim>\<open>new Error('No new access token provided after refresh')\<close>\<close>
  | FetchError string
      \<comment> \<open>a rejected \<^verbatim>\<open>event.fetch\<close>\<close>
  | Redirect nat string
      \<comment> \<open>\<^verbatim>\<open>redirect(status, location)\<close>\<close>

subsection \<open>The shared state, the request and the collaborators\<close>

text \<open>
  The world holds what a handler reads more than once and what other handlers or the
  collaborators may change in between: the module-level \<^verbatim>\<open>refreshingStates\<close> map, the
  cookie jar of the request (\<^verbatim>\<open>event.cookies\<close>, which the fetch may update), and the
  wall clock \<^verbatim>\<open>Date.now()\<close> in milliseconds.
\<close>

record world =
  refreshingStates :: "string \<rightharpoonup> bool"
  cookies :: "string \<rightharpoonup> string"
  clock :: int

text \<open>The parts of the request event that never change: headers and URL.\<close>

record event =
  headers :: "string \<rightharpoonup> string"
  url_pathname :: string
  url_search :: string

datatype cryptokey = CryptoKey string string

record response =
  ok :: bool
  status :: nat

text \<open>
  The collaborators. A collaborator that rejects returns the message of its error, which
  the caller sees as a thrown value of its own kind. \<open>jwtVerify\<close> is given the clock, which
  the library reads for its own expiry check. \<open>setTimeout\<close> is what the rest of the process does to the world while
  the caller sleeps for the given number of milliseconds; \<open>fetch\<close> performs the request and
  returns the world as the exchange left it. Both are suspension points of the caller, so
  both may change any part of the world.
\<close>

record ext =
  env_spki :: "string option"
  env_alg :: "string option"
  importSPKI :: "string \<Rightarrow> string \<Rightarrow> string + cryptokey"
  jwtVerify :: "string \<Rightarrow> cryptokey \<Rightarrow> string \<Rightarrow> int \<Rightarrow> string + payload"
  setTimeout :: "nat \<Rightarrow> world \<Rightarrow> world"
  fetch :: "string \<Rightarrow> (string \<times> string) list \<Rightarrow> world \<Rightarrow> (string + response) \<times> world"

text \<open>
  What \<^verbatim>\<open>jwtVerify\<close> of the jose library does with the expiry claim, beside checking
  signature and issuer: it rejects the token (JWTExpired) unless a numeric \<^verbatim>\<open>exp\<close> is
  strictly after the current time in whole seconds. The library is not part of the
  repository; a verification with this behaviour is what the module is deployed with, and
  a statement that depends on it names it as a hypothesis.
\<close>

definition rejects_expired :: "ext \<Rightarrow> bool" where
  "rejects_expired X =
     (\<forall>jwt publicKey issuer now_ms p e.
        jwtVerify X jwt publicKey issuer now_ms = Inr p \<longrightarrow> exp_claim p = JNumber e
          \<longrightarrow> of_int (now_ms div 1000) < e)"

text \<open>What a call did, in order.\<close>

datatype effect =
    Sleep nat
  | Validate string
  | Mark string
  | Unmark string
  | Fetch string "(string \<times> string) list"
  | ConsoleError thrown

subsection \<open>ValidateAccess (lines 13-33)\<close>

text \<open>
  The function reads the environment and the clock and changes nothing, so it is a pure
  function of the world it is called in. Its two awaits are not modelled as suspension
  points: nothing it reads after them is shared, except the clock.
\<close>

definition EXPIRY_BUFFER :: rat where
  "EXPIRY_BUFFER = 30"

definition ValidateAccess :: "ext \<Rightarrow> world \<Rightarrow> string \<Rightarrow> thrown + payload" where
  "ValidateAccess X w jwt =
     (let spki = or_default (env_spki X) '''';
          alg = or_default (env_alg X) ''RS256''
      in case importSPKI X spki alg of
           Inl m \<Rightarrow> Inl (KeyImportError m)
         | Inr publicKey \<Rightarrow>
             (case jwtVerify X jwt publicKey ''auth:auth'' (clock w) of
                Inl m \<Rightarrow> Inl (VerifyError m)
              | Inr payload \<Rightarrow>
                  (case exp_claim payload of
                     JNumber e \<Rightarrow>
                       if truthy (JNumber e) then
                         (let now = clock w div 1000
                          in if e - of_int now < EXPIRY_BUFFER then Inl AboutToExpire
                             else Inr payload)
                       else Inr payload
                   | _ \<Rightarrow> Inr payload)))"

subsection \<open>handleTokenRefresh (lines 49-103)\<close>

text \<open>\<^verbatim>\<open>refreshingStates.get(sessionId)\<close> as a condition.\<close>

definition is_refreshing :: "world \<Rightarrow> string \<Rightarrow> bool" where
  "is_refreshing w sessionId = (refreshingStates w sessionId = Some True)"

text \<open>
  The wait loop of lines 53-57. It tests the lock table only; each round sleeps 100 ms,
  during which the rest of the process runs.
\<close>

function poll :: "ext \<Rightarrow> string \<Rightarrow> nat \<Rightarrow> world \<times> effect list \<Rightarrow> world \<times> effect list" where
  "poll X sessionId attempts (w, effs) =
     (if is_refreshing w sessionId \<and> attempts < 30
      then poll X sessionId (attempts + 1) (setTimeout X 100 w, effs @ [Sleep 100])
      else (w, effs))"
  by pat_completeness auto
termination
  by (relation "measure (\<lambda>(X, sessionId, attempts, s). 30 - attempts)") auto

declare poll.simps [simp del]

text \<open>
  Lines 51-68: the branch taken when the session is already marked. The result is
  \<open>Some\<close> payload when the function returns from inside the branch (line 63), and
  \<open>None\<close> when control reaches line 71.
\<close>

definition wait_for_refresh :: "ext \<Rightarrow> string \<Rightarrow> world \<Rightarrow> payload option \<times> world \<times> effect list" where
  "wait_for_refresh X sessionId w =
     (if is_refreshing w sessionId then
        (case poll X sessionId 0 (w, []) of
           (w1, effs) \<Rightarrow>
             (case nonempty (cookies w1 ''accessToken'') of
                None \<Rightarrow> (None, w1, effs)
              | Some accessToken \<Rightarrow>
                  (case ValidateAccess X w1 accessToken of
                     Inr p \<Rightarrow> (Some p, w1, effs @ [Validate accessToken])
                   | Inl e \<Rightarrow> (None, w1, effs @ [Validate accessToken]))))
      else (None, w, []))"

text \<open>Lines 74-95: the body of the \<^verbatim>\<open>try\<close> block.\<close>

definition refresh_headers :: "string \<Rightarrow> (string \<times> string) list" where
  "refresh_headers refreshToken =
     [(''Cookie'', ''refreshToken='' @ refreshToken), (''Accept'', ''application/json'')]"

definition try_refresh :: "ext \<Rightarrow> world \<Rightarrow> (thrown + payload) \<times> world \<times> effect list" where
  "try_refresh X w =
     (case nonempty (cookies w ''refreshToken'') of
        None \<Rightarrow> (Inl MissingRefreshToken, w, [])
      | Some refreshToken \<Rightarrow>
          (case fetch X ''/auth/refresh'' (refresh_headers refreshToken) w of
             (Inl m, w1) \<Rightarrow>
               (Inl (FetchError m), w1, [Fetch ''/auth/refresh'' (refresh_headers refreshToken)])
           | (Inr refreshRes, w1) \<Rightarrow>
               if \<not> ok refreshRes then
                 (Inl (RefreshExchangeFailed (status refreshRes)), w1,
                  [Fetch ''/auth/refresh'' (refresh_headers refreshToken)])
               else
                 (case nonempty (cookies w1 ''accessToken'') of
                    None \<Rightarrow>
                      (Inl MissingIssuedCredential, w1,
                       [Fetch ''/auth/refresh'' (refresh_headers refreshToken)])
                  | Some newAccessToken \<Rightarrow>
                      (ValidateAccess X w1 newAccessToken, w1,
                       [Fetch ''/auth/refresh'' (refresh_headers refreshToken),
                        Validate newAccessToken]))))"

text \<open>
  Lines 71-102: mark, run the \<^verbatim>\<open>try\<close> block, turn anything it threw into the login
  redirect after logging it (\<^verbatim>\<open>catch\<close>), and delete the mark (\<^verbatim>\<open>finally\<close>).
\<close>

definition own_refresh :: "ext \<Rightarrow> string \<Rightarrow> world \<Rightarrow> (thrown + payload) \<times> world \<times> effect list" where
  "own_refresh X sessionId w =
     (case try_refresh X (w\<lparr>refreshingStates := (refreshingStates w)(sessionId \<mapsto> True)\<rparr>) of
        (r, w1, effs) \<Rightarrow>
          (let w2 = w1\<lparr>refreshingStates := (refreshingStates w1)(sessionId := None)\<rparr>
           in case r of
                Inr p \<Rightarrow> (Inr p, w2, [Mark sessionId] @ effs @ [Unmark sessionId])
              | Inl e \<Rightarrow>
                  (Inl (Redirect 302 ''/auth/login''), w2,
                   [Mark sessionId] @ effs @ [ConsoleError e, Unmark sessionId])))"

definition handleTokenRefresh :: "ext \<Rightarrow> string \<Rightarrow> world \<Rightarrow> (thrown + payload) \<times> world \<times> effect list" where
  "handleTokenRefresh X sessionId w =
     (case wait_for_refresh X sessionId w of
        (Some p, w1, effs) \<Rightarrow> (Inr p, w1, effs)
      | (None, w1, effs) \<Rightarrow>
          (case own_refresh X sessionId w1 of
             (r, w2, effs2) \<Rightarrow> (r, w2, effs @ effs2)))"

subsection \<open>getUserFromToken, isAuthenticated, requireAuth (lines 112-169)\<close>

text \<open>Lines 116-117: header, else cookie, else the constant.\<close>

definition session_id :: "event \<Rightarrow> world \<Rightarrow> string" where
  "session_id ev w =
     (case nonempty (headers ev ''x-session-id'') of
        Some h \<Rightarrow> h
      | None \<Rightarrow> or_default (cookies w ''sessionId'') ''default'')"

text \<open>The result \<open>None\<close> is JavaScript's \<^verbatim>\<open>null\<close>.\<close>

definition refresh_user :: "ext \<Rightarrow> string \<Rightarrow> world \<Rightarrow> (thrown + payload option) \<times> world \<times> effect list" where
  "refresh_user X sessionId w =
     (case handleTokenRefresh X sessionId w of
        (r, w1, effs) \<Rightarrow> (map_sum id Some r, w1, effs))"

definition getUserFromToken :: "ext \<Rightarrow> event \<Rightarrow> world \<Rightarrow> (thrown + payload option) \<times> world \<times> effect list" where
  "getUserFromToken X ev w =
     (let sessionId = session_id ev w
      in case nonempty (cookies w ''accessToken'') of
           Some accessToken \<Rightarrow>
             (case ValidateAccess X w accessToken of
                Inr p \<Rightarrow> (Inr (Some p), w, [Validate accessToken])
              | Inl e \<Rightarrow>
                  (case nonempty (cookies w ''refreshToken'') of
                     Some rt \<Rightarrow>
                       (case refresh_user X sessionId w of
                          (r, w1, effs) \<Rightarrow> (r, w1, Validate accessToken # effs))
                   | None \<Rightarrow> (Inr None, w, [Validate accessToken])))
         | None \<Rightarrow>
             (case nonempty (cookies w ''refreshToken'') of
                Some rt \<Rightarrow> refresh_user X sessionId w
              | None \<Rightarrow> (Inr None, w, [])))"

definition isAuthenticated :: "ext \<Rightarrow> event \<Rightarrow> world \<Rightarrow> bool \<times> world \<times> effect list" where
  "isAuthenticated X ev w =
     (case getUserFromToken X ev w of
        (Inr user, w1, effs) \<Rightarrow> (user \<noteq> None, w1, effs)
      | (Inl e, w1, effs) \<Rightarrow> (False, w1, effs))"

text \<open>
  \<^verbatim>\<open>encodeURIComponent\<close> on a string given as its UTF-8 bytes: the unreserved
  characters \<^verbatim>\<open>A-Z a-z 0-9 - _ . ! ~ * ' ( )\<close> stay, every other byte becomes \<^verbatim>\<open>%XX\<close> in
  upper-case hexadecimal.
\<close>

definition uri_unreserved :: "char \<Rightarrow> bool" where
  "uri_unreserved c =
     (let n = (of_char c :: nat)
      in (65 \<le> n \<and> n \<le> 90) \<or> (97 \<le> n \<and> n \<le> 122) \<or> (48 \<le> n \<and> n \<le> 57)
         \<or> n \<in> set [45, 95, 46, 33, 126, 42, 39, 40, 41])"

definition hex_digit :: "nat \<Rightarrow> char" where
  "hex_digit n = ''0123456789ABCDEF'' ! (n mod 16)"

definition percent_encode :: "char \<Rightarrow> string" where
  "percent_encode c =
     (let n = (of_char c :: nat) in [CHR ''%'', hex_digit (n div 16), hex_digit (n mod 16)])"

definition encodeURIComponent :: "string \<Rightarrow> string" where
  "encodeURIComponent s =
     concat (map (\<lambda>c. if uri_unreserved c then [c] else percent_encode c) s)"

definition requireAuth :: "ext \<Rightarrow> event \<Rightarrow> world \<Rightarrow> (thrown + payload) \<times> world \<times> effect list" where
  "requireAuth X ev w =
     (case getUserFromToken X ev w of
        (Inl e, w1, effs) \<Rightarrow> (Inl e, w1, effs)
      | (Inr None, w1, effs) \<Rightarrow>
          (let returnUrl = url_pathname ev @ url_search ev
           in (Inl (Redirect 302 (''/auth/login?returnUrl='' @ encodeURIComponent returnUrl)),
               w1, effs))
      | (Inr (Some user), w1, effs) \<Rightarrow> (Inr user, w1, effs))"

subsection \<open>A concrete installation, for evaluating the functions\<close>

text \<open>
  Three tokens that verify, with an expiry far in the future, ten seconds ahead of the
  clock below, and none at all; any other string is rejected. As the jose library does,
  the verification rejects a token whose expiry is not after the clock it is given. The
  clock of \<open>demo_world\<close> reads 1700000000 seconds.
\<close>

definition demo_payload :: "jsvalue \<Rightarrow> payload" where
  "demo_payload e = \<lparr>exp_claim = e, iss_claim = JString ''auth:auth'', other_claims = []\<rparr>"

definition demo_check :: "rat \<Rightarrow> int \<Rightarrow> string + payload" where
  "demo_check e now_ms =
     (if e \<le> of_int (now_ms div 1000) then Inl ''exp claim timestamp check failed''
      else Inr (demo_payload (JNumber e)))"

definition demo_verify :: "string \<Rightarrow> cryptokey \<Rightarrow> string \<Rightarrow> int \<Rightarrow> string + payload" where
  "demo_verify jwt publicKey issuer now_ms =
     (if jwt = ''fresh'' then demo_check 2000000000 now_ms
      else if jwt = ''stale'' then demo_check 1700000010 now_ms
      else if jwt = ''noexp'' then Inr (demo_payload JUndefined)
      else Inl ''signature verification failed'')"

text \<open>
  While the caller sleeps only the clock moves, so a mark set by another handler stays.
  The refresh endpoint answers 401.
\<close>

definition demo_ext :: ext where
  "demo_ext =
     \<lparr>env_spki = Some ''SPKI'', env_alg = None,
      importSPKI = (\<lambda>spki alg. if spki = [] then Inl ''empty key''
                                else Inr (CryptoKey spki alg)),
      jwtVerify = demo_verify,
      setTimeout = (\<lambda>ms w. w\<lparr>clock := clock w + int ms\<rparr>),
      fetch = (\<lambda>url hdrs w. (Inr \<lparr>ok = False, status = 401\<rparr>, w))\<rparr>"

text \<open>The same installation with a refresh endpoint that issues the token \<^verbatim>\<open>fresh\<close>.\<close>

definition demo_ext_ok :: ext where
  "demo_ext_ok =
     demo_ext\<lparr>fetch := (\<lambda>url hdrs w.
        (Inr \<lparr>ok = True, status = 200\<rparr>, w\<lparr>cookies := (cookies w)(''accessToken'' \<mapsto> ''fresh'')\<rparr>))\<rparr>"

definition demo_world :: "(string \<times> bool) list \<Rightarrow> (string \<times> string) list \<Rightarrow> world" where
  "demo_world marks jar =
     \<lparr>refreshingStates = map_of marks, cookies = map_of jar, clock = 1700000000000\<rparr>"

definition demo_event :: event where
  "demo_event = \<lparr>headers = Map.empty, url_pathname = ''/dashboard'', url_search = ''?tab=1''\<rparr>"


section \<open>Properties\<close>

subsection \<open>The wait loop\<close>

text \<open>
  The loop sleeps \<open>n\<close> times for some \<open>n\<close> of at most 30 minus the starting count; the
  session was marked before each sleep, and when the loop stops short of the cap the
  session is no longer marked.
\<close>

lemma poll_shape:
  "attempts \<le> 30 \<Longrightarrow>
   \<exists>n. attempts + n \<le> 30
     \<and> poll X sid attempts (w, effs) = ((setTimeout X 100 ^^ n) w, effs @ replicate n (Sleep 100))
     \<and> (\<forall>k<n. is_refreshing ((setTimeout X 100 ^^ k) w) sid)
     \<and> (attempts + n < 30 \<longrightarrow> \<not> is_refreshing ((setTimeout X 100 ^^ n) w) sid)"
proof (induction X sid attempts "(w, effs)" arbitrary: w effs rule: poll.induct)
  case (1 X sid attempts w effs)
  show ?case
  proof (cases "is_refreshing w sid \<and> attempts < 30")
    case False
    then have "poll X sid attempts (w, effs) = (w, effs)"
      by (subst poll.simps) auto
    with False "1.prems" show ?thesis
      by (intro exI[of _ 0]) auto
  next
    case True
    then have le: "attempts + 1 \<le> 30" by simp
    from "1.hyps"[OF True le] obtain n where
      n: "attempts + 1 + n \<le> 30"
      and p: "poll X sid (attempts + 1) (setTimeout X 100 w, effs @ [Sleep 100]) =
               ((setTimeout X 100 ^^ n) (setTimeout X 100 w), (effs @ [Sleep 100]) @ replicate n (Sleep 100))"
      and a: "\<forall>k<n. is_refreshing ((setTimeout X 100 ^^ k) (setTimeout X 100 w)) sid"
      and b: "attempts + 1 + n < 30 \<longrightarrow> \<not> is_refreshing ((setTimeout X 100 ^^ n) (setTimeout X 100 w)) sid"
      by blast
    have eq: "poll X sid attempts (w, effs) = ((setTimeout X 100 ^^ Suc n) w, effs @ replicate (Suc n) (Sleep 100))"
      using True p by (subst poll.simps) (simp add: funpow_swap1)
    have all: "\<forall>k<Suc n. is_refreshing ((setTimeout X 100 ^^ k) w) sid"
    proof (intro allI impI)
      fix k assume "k < Suc n"
      then show "is_refreshing ((setTimeout X 100 ^^ k) w) sid"
        using True a by (cases k) (simp_all add: funpow_swap1)
    qed
    have last: "attempts + Suc n < 30 \<longrightarrow> \<not> is_refreshing ((setTimeout X 100 ^^ Suc n) w) sid"
      using b by (simp add: funpow_swap1)
    from n eq all last show ?thesis
      by (intro exI[of _ "Suc n"]) simp
  qed
qed


text \<open>
  The marked branch as a whole: some number \<open>n\<close> of sleeps as above, then one validation
  of the access cookie as it is stored after the wait, if there is one.
\<close>

lemma wait_shape:
  assumes "is_refreshing w sid"
  shows "\<exists>n\<le>30. (\<forall>k<n. is_refreshing ((setTimeout X 100 ^^ k) w) sid)
     \<and> (n < 30 \<longrightarrow> \<not> is_refreshing ((setTimeout X 100 ^^ n) w) sid)
     \<and> wait_for_refresh X sid w =
         (case nonempty (cookies ((setTimeout X 100 ^^ n) w) ''accessToken'') of
            None \<Rightarrow> (None, (setTimeout X 100 ^^ n) w, replicate n (Sleep 100))
          | Some tok \<Rightarrow>
              (case ValidateAccess X ((setTimeout X 100 ^^ n) w) tok of
                 Inr p \<Rightarrow> Some p | Inl e \<Rightarrow> None,
               (setTimeout X 100 ^^ n) w, replicate n (Sleep 100) @ [Validate tok]))"
proof -
  from poll_shape[of 0 X sid w "[]"] obtain n where
    n: "n \<le> 30"
    and p: "poll X sid 0 (w, []) = ((setTimeout X 100 ^^ n) w, replicate n (Sleep 100))"
    and a: "\<forall>k<n. is_refreshing ((setTimeout X 100 ^^ k) w) sid"
    and b: "n < 30 \<longrightarrow> \<not> is_refreshing ((setTimeout X 100 ^^ n) w) sid"
    by auto
  have "wait_for_refresh X sid w =
         (case nonempty (cookies ((setTimeout X 100 ^^ n) w) ''accessToken'') of
            None \<Rightarrow> (None, (setTimeout X 100 ^^ n) w, replicate n (Sleep 100))
          | Some tok \<Rightarrow>
              (case ValidateAccess X ((setTimeout X 100 ^^ n) w) tok of
                 Inr p \<Rightarrow> Some p | Inl e \<Rightarrow> None,
               (setTimeout X 100 ^^ n) w, replicate n (Sleep 100) @ [Validate tok]))"
    using assms p by (simp add: wait_for_refresh_def split: option.splits sum.splits)
  with n a b show ?thesis by blast
qed

subsection \<open>The refresh attempt\<close>

lemma wait_idle: "\<not> is_refreshing w sid \<Longrightarrow> wait_for_refresh X sid w = (None, w, [])"
  by (simp add: wait_for_refresh_def)

lemma handleTokenRefresh_idle:
  "\<not> is_refreshing w sid \<Longrightarrow> handleTokenRefresh X sid w = own_refresh X sid w"
  by (simp add: handleTokenRefresh_def wait_idle split: prod.splits)

lemma own_refresh_unmarks: "refreshingStates (fst (snd (own_refresh X sid w))) sid = None"
  by (simp add: own_refresh_def Let_def split: prod.splits sum.splits)

lemma own_refresh_marks: "\<exists>rest. snd (snd (own_refresh X sid w)) = Mark sid # rest"
  by (simp add: own_refresh_def Let_def split: prod.splits sum.splits)

lemma own_refresh_result:
  "(\<exists>p. fst (own_refresh X sid w) = Inr p) \<or> fst (own_refresh X sid w) = Inl (Redirect 302 ''/auth/login'')"
  by (simp add: own_refresh_def Let_def split: prod.splits sum.splits)

lemma wait_no_mark: "Mark sid \<notin> set (snd (snd (wait_for_refresh X sid w)))"
proof (cases "is_refreshing w sid")
  case True
  from wait_shape[OF True, of X] show ?thesis
    by (auto split: option.splits)
next
  case False
  then show ?thesis by (simp add: wait_idle)
qed

lemma ValidateAccess_errors:
  "ValidateAccess X w jwt = Inl e \<Longrightarrow>
     (\<exists>m. e = KeyImportError m) \<or> (\<exists>m. e = VerifyError m) \<or> e = AboutToExpire"
  by (auto simp: ValidateAccess_def Let_def split: sum.splits jsvalue.splits if_splits)

subsection \<open>Evaluating the concrete installation\<close>

lemmas demo_defs = demo_world_def demo_ext_def demo_ext_ok_def demo_verify_def demo_check_def
  demo_payload_def demo_event_def
lemmas run_defs = handleTokenRefresh_def wait_for_refresh_def own_refresh_def try_refresh_def
  is_refreshing_def nonempty_def ValidateAccess_def or_default_def EXPIRY_BUFFER_def
  refresh_headers_def
lemmas user_defs = getUserFromToken_def requireAuth_def refresh_user_def session_id_def
lemmas uri_defs = encodeURIComponent_def uri_unreserved_def percent_encode_def hex_digit_def

lemma demo_sleeps:
  "(setTimeout demo_ext 100 ^^ k) w = w\<lparr>clock := clock w + 100 * int k\<rparr>"
  by (induction k) (simp_all add: demo_ext_def algebra_simps)


lemma replicate_30:
  "replicate 30 x = [x,x,x,x,x,x,x,x,x,x,x,x,x,x,x,x,x,x,x,x,x,x,x,x,x,x,x,x,x,x]"
  by (simp add: numeral_eq_Suc)

section \<open>The claims\<close>

subsection \<open>C1: the lock table after a call\<close>

text \<open>
  C1 says that after every call of \<^verbatim>\<open>handleTokenRefresh\<close>, whatever its outcome, the session
  key is absent from \<^verbatim>\<open>refreshingStates\<close>, also when the call returned from the wait branch.

  This fails for the return of line 63. With the session marked by another handler that
  does not finish within the 30 rounds, and a valid access cookie, the call returns the
  claims and the mark is still in the table.
\<close>

theorem early_return_leaves_mark_counterexample:
  "fst (handleTokenRefresh demo_ext ''s'' (demo_world [(''s'', True)] [(''accessToken'', ''fresh'')]))
     = Inr (demo_payload (JNumber 2000000000))
   \<and> refreshingStates
        (fst (snd (handleTokenRefresh demo_ext ''s''
                     (demo_world [(''s'', True)] [(''accessToken'', ''fresh'')]))))
        ''s'' = Some True"
  by (simp add: run_defs demo_defs poll.simps)

text \<open>
  C1, as amended. A call that marked the session itself leaves the key absent; every call
  that ends in a thrown value is such a call. A call that did not mark the session was
  entered with the session marked, returned claims from the wait branch and wrote nothing
  to the table: its world is the one in which its wait loop ended, after \<open>n\<close> sleeps with
  the session marked before each. When the loop ended before the cap, the session was no
  longer marked in that world; when it ran to the cap, nothing is promised about the key,
  which may still be marked.
\<close>

theorem lock_table_after_call:
  assumes "handleTokenRefresh X sid w = (r, w', effs)"
  shows "(Mark sid \<in> set effs \<longrightarrow> refreshingStates w' sid = None)
     \<and> ((\<exists>e. r = Inl e) \<longrightarrow> Mark sid \<in> set effs)
     \<and> (Mark sid \<notin> set effs \<longrightarrow>
          is_refreshing w sid \<and> (\<exists>p. r = Inr p)
          \<and> (\<exists>n\<le>30. w' = (setTimeout X 100 ^^ n) w
                \<and> (\<forall>k<n. is_refreshing ((setTimeout X 100 ^^ k) w) sid)
                \<and> (n < 30 \<longrightarrow> \<not> is_refreshing ((setTimeout X 100 ^^ n) w) sid)))"
proof (cases "fst (wait_for_refresh X sid w)")
  case None
  then obtain w1 effs1 where wf: "wait_for_refresh X sid w = (None, w1, effs1)"
    by (cases "wait_for_refresh X sid w") auto
  obtain r2 w2 effs2 where own: "own_refresh X sid w1 = (r2, w2, effs2)"
    by (cases "own_refresh X sid w1") auto
  from assms wf own have eq: "r = r2" "w' = w2" "effs = effs1 @ effs2"
    by (simp_all add: handleTokenRefresh_def)
  from own_refresh_unmarks[of X sid w1] own have "refreshingStates w2 sid = None" by simp
  moreover from own_refresh_marks[of X sid w1] own have "Mark sid \<in> set effs2" by auto
  ultimately show ?thesis using eq by simp
next
  case (Some p)
  then obtain w1 effs1 where wf: "wait_for_refresh X sid w = (Some p, w1, effs1)"
    by (cases "wait_for_refresh X sid w") auto
  from assms wf have eq: "r = Inr p" "w' = w1" "effs = effs1"
    by (simp_all add: handleTokenRefresh_def)
  from wait_no_mark[of sid X w] wf have nm: "Mark sid \<notin> set effs1" by simp
  have m: "is_refreshing w sid"
    using wf by (cases "is_refreshing w sid") (simp_all add: wait_idle)
  from wait_shape[OF m, of X] wf
  have "\<exists>n\<le>30. w1 = (setTimeout X 100 ^^ n) w
          \<and> (\<forall>k<n. is_refreshing ((setTimeout X 100 ^^ k) w) sid)
          \<and> (n < 30 \<longrightarrow> \<not> is_refreshing ((setTimeout X 100 ^^ n) w) sid)"
    by (auto split: option.splits)
  with eq nm m show ?thesis by simp
qed

theorem lock_table_after_call_witness:
  "(Mark ''s'' \<in> set (snd (snd (handleTokenRefresh demo_ext ''s'' (demo_world [] [(''refreshToken'', ''r1'')]))))
    \<and> refreshingStates (fst (snd (handleTokenRefresh demo_ext ''s'' (demo_world [] [(''refreshToken'', ''r1'')])))) ''s'' = None)
   \<and> (Mark ''s'' \<notin> set (snd (snd (handleTokenRefresh demo_ext ''s'' (demo_world [(''s'', True)] [(''accessToken'', ''fresh'')]))))
    \<and> is_refreshing (demo_world [(''s'', True)] [(''accessToken'', ''fresh'')]) ''s''
    \<and> (\<exists>p. fst (handleTokenRefresh demo_ext ''s'' (demo_world [(''s'', True)] [(''accessToken'', ''fresh'')])) = Inr p))"
proof -
  let ?H = "handleTokenRefresh demo_ext ''s'' (demo_world [] [(''refreshToken'', ''r1'')])"
  let ?G = "handleTokenRefresh demo_ext ''s'' (demo_world [(''s'', True)] [(''accessToken'', ''fresh'')])"
  have runH: "?H = (fst ?H, fst (snd ?H), snd (snd ?H))" by simp
  have runG: "?G = (fst ?G, fst (snd ?G), snd (snd ?G))" by simp
  have m: "Mark ''s'' \<in> set (snd (snd ?H))"
    by (simp add: run_defs demo_defs)
  have nm: "Mark ''s'' \<notin> set (snd (snd ?G))"
    by (simp add: run_defs demo_defs poll.simps)
  from lock_table_after_call[OF runH] m
  have a: "refreshingStates (fst (snd ?H)) ''s'' = None" by blast
  from lock_table_after_call[OF runG] nm
  have b: "is_refreshing (demo_world [(''s'', True)] [(''accessToken'', ''fresh'')]) ''s'' \<and> (\<exists>p. fst ?G = Inr p)" by blast
  from m a nm b show ?thesis by blast
qed

subsection \<open>C2: what the wait branch polls\<close>

text \<open>
  C2 says that a caller finding the session marked polls every 100 ms, at most 30 times,
  runs the validator on the stored access credential at each check, and returns the claims
  as soon as a valid credential appears.

  This fails: the loop of lines 54-57 tests the lock table only. With a credential that is
  valid from the start and a mark that stays, the caller sleeps all 30 rounds and runs the
  validator once, after them.
\<close>

theorem valid_credential_still_waits_counterexample:
  "ValidateAccess demo_ext (demo_world [(''s'', True)] [(''accessToken'', ''fresh'')]) ''fresh''
     = Inr (demo_payload (JNumber 2000000000))
   \<and> snd (snd (handleTokenRefresh demo_ext ''s''
                  (demo_world [(''s'', True)] [(''accessToken'', ''fresh'')])))
     = replicate 30 (Sleep 100) @ [Validate ''fresh'']"
  by (simp add: run_defs demo_defs poll.simps replicate_30)

text \<open>
  C2, as amended. A caller finding the session marked sleeps \<open>n\<close> times 100 ms for some \<open>n\<close>
  of at most 30: the session was marked before each sleep, and is no longer marked after
  the last when \<open>n\<close> is below 30. The validator runs after the wait, once, on the access
  cookie as stored then; when it accepts, the call returns those claims and does nothing
  else.
\<close>

theorem wait_then_validate_once:
  assumes "is_refreshing w sid"
  shows "\<exists>n\<le>30. (\<forall>k<n. is_refreshing ((setTimeout X 100 ^^ k) w) sid)
     \<and> (n < 30 \<longrightarrow> \<not> is_refreshing ((setTimeout X 100 ^^ n) w) sid)
     \<and> (\<exists>rest. snd (snd (handleTokenRefresh X sid w)) =
            replicate n (Sleep 100)
            @ (case nonempty (cookies ((setTimeout X 100 ^^ n) w) ''accessToken'') of
                 None \<Rightarrow> [] | Some tok \<Rightarrow> [Validate tok])
            @ rest)
     \<and> (\<forall>tok p. nonempty (cookies ((setTimeout X 100 ^^ n) w) ''accessToken'') = Some tok
            \<longrightarrow> ValidateAccess X ((setTimeout X 100 ^^ n) w) tok = Inr p
            \<longrightarrow> handleTokenRefresh X sid w =
                  (Inr p, (setTimeout X 100 ^^ n) w, replicate n (Sleep 100) @ [Validate tok]))"
proof -
  from wait_shape[OF assms, of X] obtain n where
    n: "n \<le> 30"
    and a: "\<forall>k<n. is_refreshing ((setTimeout X 100 ^^ k) w) sid"
    and b: "n < 30 \<longrightarrow> \<not> is_refreshing ((setTimeout X 100 ^^ n) w) sid"
    and wf: "wait_for_refresh X sid w =
         (case nonempty (cookies ((setTimeout X 100 ^^ n) w) ''accessToken'') of
            None \<Rightarrow> (None, (setTimeout X 100 ^^ n) w, replicate n (Sleep 100))
          | Some tok \<Rightarrow>
              (case ValidateAccess X ((setTimeout X 100 ^^ n) w) tok of
                 Inr p \<Rightarrow> Some p | Inl e \<Rightarrow> None,
               (setTimeout X 100 ^^ n) w, replicate n (Sleep 100) @ [Validate tok]))"
    by blast
  let ?w1 = "(setTimeout X 100 ^^ n) w"
  have c: "\<exists>rest. snd (snd (handleTokenRefresh X sid w)) =
            replicate n (Sleep 100)
            @ (case nonempty (cookies ?w1 ''accessToken'') of
                 None \<Rightarrow> [] | Some tok \<Rightarrow> [Validate tok])
            @ rest"
    using wf
    by (auto simp: handleTokenRefresh_def split: option.splits sum.splits prod.splits)
  have d: "\<forall>tok p. nonempty (cookies ?w1 ''accessToken'') = Some tok
            \<longrightarrow> ValidateAccess X ?w1 tok = Inr p
            \<longrightarrow> handleTokenRefresh X sid w = (Inr p, ?w1, replicate n (Sleep 100) @ [Validate tok])"
    using wf by (simp add: handleTokenRefresh_def)
  from n a b c d show ?thesis by blast
qed

theorem wait_then_validate_once_witness:
  "is_refreshing (demo_world [(''s'', True)] [(''accessToken'', ''stale'')]) ''s''
   \<and> (\<exists>n\<le>30. \<exists>rest.
         snd (snd (handleTokenRefresh demo_ext ''s''
                     (demo_world [(''s'', True)] [(''accessToken'', ''stale'')])))
           = replicate n (Sleep 100) @ [Validate ''stale''] @ rest)"
proof -
  let ?w = "demo_world [(''s'', True)] [(''accessToken'', ''stale'')]"
  have h: "is_refreshing ?w ''s''"
    by (simp add: is_refreshing_def demo_world_def)
  have c: "nonempty (cookies ((setTimeout demo_ext 100 ^^ n) ?w) ''accessToken'') = Some ''stale''" for n
    unfolding demo_sleeps by (simp add: nonempty_def demo_world_def)
  from wait_then_validate_once[OF h, of demo_ext] c h show ?thesis
    by (simp only: option.case) blast
qed

subsection \<open>C3: a refused exchange, seen from the resolver\<close>

text \<open>
  C3 says that with an access credential about to expire and a refresh credential whose
  exchange is refused, \<^verbatim>\<open>getUserFromToken\<close> fails with the refused exchange as its error
  and \<^verbatim>\<open>requireAuth\<close> turns that into a login redirect.

  This fails: the \<^verbatim>\<open>catch\<close> of \<^verbatim>\<open>handleTokenRefresh\<close> (lines 96-98) has already replaced the
  error by the redirect, so the resolver fails with the redirect itself.
\<close>

theorem resolver_fails_with_redirect_counterexample:
  "nonempty (cookies (demo_world [] [(''accessToken'', ''stale''), (''refreshToken'', ''r1'')])
       ''accessToken'') = Some ''stale''
   \<and> ValidateAccess demo_ext
        (demo_world [] [(''accessToken'', ''stale''), (''refreshToken'', ''r1'')]) ''stale''
       = Inl AboutToExpire
   \<and> nonempty (cookies (demo_world [] [(''accessToken'', ''stale''), (''refreshToken'', ''r1'')])
       ''refreshToken'') = Some ''r1''
   \<and> fst (getUserFromToken demo_ext demo_event
             (demo_world [] [(''accessToken'', ''stale''), (''refreshToken'', ''r1'')]))
       = Inl (Redirect 302 ''/auth/login'')
   \<and> fst (getUserFromToken demo_ext demo_event
             (demo_world [] [(''accessToken'', ''stale''), (''refreshToken'', ''r1'')]))
       \<noteq> Inl (RefreshExchangeFailed 401)"
  by (simp add: user_defs run_defs demo_defs Let_def)

text \<open>
  C3, as amended. With an access credential about to expire and a refresh credential
  present, when the wait branch (if taken) ends without a credential to reuse and the
  exchange is then refused, \<^verbatim>\<open>getUserFromToken\<close> fails with the redirect 302 to
  \<^verbatim>\<open>/auth/login\<close>; the refused exchange is logged with its status inside the coordinator,
  and the session is unmarked. \<^verbatim>\<open>requireAuth\<close> lets the same redirect through unchanged.
\<close>

theorem failed_exchange_redirects:
  assumes acc: "nonempty (cookies w ''accessToken'') = Some tok"
    and soon: "ValidateAccess X w tok = Inl AboutToExpire"
    and rt0: "nonempty (cookies w ''refreshToken'') = Some rt0"
    and sid: "sid = session_id ev w"
    and wait: "wait_for_refresh X sid w = (None, w1, effs1)"
    and rt: "nonempty (cookies w1 ''refreshToken'') = Some rt"
    and ex: "fetch X ''/auth/refresh'' (refresh_headers rt)
               (w1\<lparr>refreshingStates := (refreshingStates w1)(sid \<mapsto> True)\<rparr>) = (Inr res, w2)"
    and bad: "\<not> ok res"
  shows "getUserFromToken X ev w =
           (Inl (Redirect 302 ''/auth/login''),
            w2\<lparr>refreshingStates := (refreshingStates w2)(sid := None)\<rparr>,
            Validate tok # effs1 @
              [Mark sid, Fetch ''/auth/refresh'' (refresh_headers rt),
               ConsoleError (RefreshExchangeFailed (status res)), Unmark sid])
       \<and> requireAuth X ev w =
           (Inl (Redirect 302 ''/auth/login''),
            w2\<lparr>refreshingStates := (refreshingStates w2)(sid := None)\<rparr>,
            Validate tok # effs1 @
              [Mark sid, Fetch ''/auth/refresh'' (refresh_headers rt),
               ConsoleError (RefreshExchangeFailed (status res)), Unmark sid])"
proof -
  have own: "own_refresh X sid w1 =
      (Inl (Redirect 302 ''/auth/login''),
       w2\<lparr>refreshingStates := (refreshingStates w2)(sid := None)\<rparr>,
       [Mark sid, Fetch ''/auth/refresh'' (refresh_headers rt),
        ConsoleError (RefreshExchangeFailed (status res)), Unmark sid])"
    using rt ex bad by (simp add: own_refresh_def try_refresh_def)
  have h: "handleTokenRefresh X sid w =
      (Inl (Redirect 302 ''/auth/login''),
       w2\<lparr>refreshingStates := (refreshingStates w2)(sid := None)\<rparr>,
       effs1 @ [Mark sid, Fetch ''/auth/refresh'' (refresh_headers rt),
        ConsoleError (RefreshExchangeFailed (status res)), Unmark sid])"
    using wait own by (simp add: handleTokenRefresh_def)
  have g: "getUserFromToken X ev w =
           (Inl (Redirect 302 ''/auth/login''),
            w2\<lparr>refreshingStates := (refreshingStates w2)(sid := None)\<rparr>,
            Validate tok # effs1 @
              [Mark sid, Fetch ''/auth/refresh'' (refresh_headers rt),
               ConsoleError (RefreshExchangeFailed (status res)), Unmark sid])"
    using acc soon rt0 sid h by (simp add: getUserFromToken_def refresh_user_def Let_def)
  then show ?thesis by (simp add: requireAuth_def)
qed

theorem failed_exchange_redirects_witness:
  "fst (getUserFromToken demo_ext demo_event
          (demo_world [] [(''accessToken'', ''stale''), (''refreshToken'', ''r1'')]))
     = Inl (Redirect 302 ''/auth/login'')
   \<and> fst (requireAuth demo_ext demo_event
          (demo_world [] [(''accessToken'', ''stale''), (''refreshToken'', ''r1'')]))
     = Inl (Redirect 302 ''/auth/login'')
   \<and> ConsoleError (RefreshExchangeFailed 401)
       \<in> set (snd (snd (requireAuth demo_ext demo_event
            (demo_world [] [(''accessToken'', ''stale''), (''refreshToken'', ''r1'')]))))"
proof -
  let ?w = "demo_world [] [(''accessToken'', ''stale''), (''refreshToken'', ''r1'')]"
  have acc: "nonempty (cookies ?w ''accessToken'') = Some ''stale''"
    by (simp add: nonempty_def demo_world_def)
  have soon: "ValidateAccess demo_ext ?w ''stale'' = Inl AboutToExpire"
    by (simp add: run_defs demo_defs)
  have rt: "nonempty (cookies ?w ''refreshToken'') = Some ''r1''"
    by (simp add: nonempty_def demo_world_def)
  have sid: "''default'' = session_id demo_event ?w"
    by (simp add: session_id_def or_default_def nonempty_def demo_defs)
  have wait: "wait_for_refresh demo_ext ''default'' ?w = (None, ?w, [])"
    by (simp add: wait_for_refresh_def is_refreshing_def demo_world_def)
  have ex: "fetch demo_ext ''/auth/refresh'' (refresh_headers ''r1'')
              (?w\<lparr>refreshingStates := (refreshingStates ?w)(''default'' \<mapsto> True)\<rparr>)
            = (Inr \<lparr>ok = False, status = 401\<rparr>,
               ?w\<lparr>refreshingStates := (refreshingStates ?w)(''default'' \<mapsto> True)\<rparr>)"
    by (simp add: demo_ext_def)
  have bad: "\<not> ok \<lparr>ok = False, status = 401\<rparr>" by simp
  from failed_exchange_redirects[OF acc soon rt sid wait rt ex bad]
  show ?thesis by simp
qed

subsection \<open>C4: the failures of the refresh attempt\<close>

text \<open>
  C4 says that a call with the session not marked fails with the missing-refresh-token
  error exactly when the refresh credential is empty, with the refused exchange and its
  status exactly when the exchange is refused, with the missing-issued-credential error
  exactly when no access credential can be read after a successful exchange, and otherwise
  returns the claims of the new credential.

  This fails: the \<^verbatim>\<open>catch\<close> block logs each of these errors and throws the redirect
  instead. With no refresh cookie the call fails with the redirect.
\<close>

theorem missing_refresh_token_redirects_counterexample:
  "\<not> is_refreshing (demo_world [] []) ''s''
   \<and> nonempty (cookies (demo_world [] []) ''refreshToken'') = None
   \<and> fst (handleTokenRefresh demo_ext ''s'' (demo_world [] [])) = Inl (Redirect 302 ''/auth/login'')
   \<and> fst (handleTokenRefresh demo_ext ''s'' (demo_world [] [])) \<noteq> Inl MissingRefreshToken"
  by (simp add: run_defs demo_defs)

text \<open>
  C4, as amended. A call with the session not marked either returns claims or fails with
  the redirect 302 to \<^verbatim>\<open>/auth/login\<close>, and it fails exactly when it logged an error. It
  logs the missing-refresh-token error exactly when the refresh credential is empty, the
  refused exchange with status \<open>st\<close> exactly when the exchange answered without success and
  with that status, and the missing-issued-credential error exactly when the exchange
  succeeded and no access credential can be read afterwards. When the exchange succeeded
  and left an access credential, the call returns the claims the validator gives for it,
  and fails with the redirect when the validator rejects it.
\<close>

theorem refresh_errors_are_logged_and_redirected:
  assumes idle: "\<not> is_refreshing w sid"
    and run: "handleTokenRefresh X sid w = (r, w', effs)"
    and wm: "wm = w\<lparr>refreshingStates := (refreshingStates w)(sid \<mapsto> True)\<rparr>"
  shows "((\<exists>p. r = Inr p) \<or> r = Inl (Redirect 302 ''/auth/login''))
    \<and> ((r = Inl (Redirect 302 ''/auth/login'')) = (\<exists>e. ConsoleError e \<in> set effs))
    \<and> ((ConsoleError MissingRefreshToken \<in> set effs) = (nonempty (cookies w ''refreshToken'') = None))
    \<and> (\<forall>st. (ConsoleError (RefreshExchangeFailed st) \<in> set effs) =
          (\<exists>rt res w1. nonempty (cookies w ''refreshToken'') = Some rt
             \<and> fetch X ''/auth/refresh'' (refresh_headers rt) wm = (Inr res, w1)
             \<and> \<not> ok res \<and> status res = st))
    \<and> ((ConsoleError MissingIssuedCredential \<in> set effs) =
          (\<exists>rt res w1. nonempty (cookies w ''refreshToken'') = Some rt
             \<and> fetch X ''/auth/refresh'' (refresh_headers rt) wm = (Inr res, w1)
             \<and> ok res \<and> nonempty (cookies w1 ''accessToken'') = None))
    \<and> (\<forall>rt res w1 tok. nonempty (cookies w ''refreshToken'') = Some rt
          \<longrightarrow> fetch X ''/auth/refresh'' (refresh_headers rt) wm = (Inr res, w1)
          \<longrightarrow> ok res
          \<longrightarrow> nonempty (cookies w1 ''accessToken'') = Some tok
          \<longrightarrow> r = (case ValidateAccess X w1 tok of
                     Inr p \<Rightarrow> Inr p
                   | Inl e \<Rightarrow> Inl (Redirect 302 ''/auth/login'')))"
proof -
  from idle run have own: "own_refresh X sid w = (r, w', effs)"
    by (simp add: handleTokenRefresh_idle)
  show ?thesis
  proof (cases "nonempty (cookies w ''refreshToken'')")
    case None
    with own wm show ?thesis
      by (auto simp: own_refresh_def try_refresh_def)
  next
    case (Some rt)
    obtain fr w1 where f: "fetch X ''/auth/refresh'' (refresh_headers rt) wm = (fr, w1)"
      by (cases "fetch X ''/auth/refresh'' (refresh_headers rt) wm") auto
    show ?thesis
    proof (cases fr)
      case (Inl m)
      with own wm Some f show ?thesis
        by (auto simp: own_refresh_def try_refresh_def)
    next
      case (Inr res)
      show ?thesis
      proof (cases "ok res")
        case False
        with own wm Some f Inr show ?thesis
          by (auto simp: own_refresh_def try_refresh_def)
      next
        case True
        show ?thesis
        proof (cases "nonempty (cookies w1 ''accessToken'')")
          case None
          with own wm Some f Inr True show ?thesis
            by (auto simp: own_refresh_def try_refresh_def)
        next
          case (Some tok)
          show ?thesis
          proof (cases "ValidateAccess X w1 tok")
            case (Inl e)
            from ValidateAccess_errors[OF Inl]
            have "e \<noteq> MissingRefreshToken" "e \<noteq> MissingIssuedCredential"
              "\<forall>st. e \<noteq> RefreshExchangeFailed st" by auto
            with own wm \<open>nonempty (cookies w ''refreshToken'') = Some rt\<close> f Inr True Some Inl
            show ?thesis
              by (auto simp: own_refresh_def try_refresh_def)
          next
            case (Inr p)
            note vp = this
            have "own_refresh X sid w =
                    (Inr p, w1\<lparr>refreshingStates := (refreshingStates w1)(sid := None)\<rparr>,
                     [Mark sid, Fetch ''/auth/refresh'' (refresh_headers rt), Validate tok, Unmark sid])"
              using wm \<open>nonempty (cookies w ''refreshToken'') = Some rt\<close> f \<open>fr = Inr res\<close> True Some vp
              by (simp add: own_refresh_def try_refresh_def)
            with own have "r = Inr p"
              "effs = [Mark sid, Fetch ''/auth/refresh'' (refresh_headers rt), Validate tok, Unmark sid]"
              by simp_all
            with wm \<open>nonempty (cookies w ''refreshToken'') = Some rt\<close> f \<open>fr = Inr res\<close> True Some vp
            show ?thesis by simp
          qed
        qed
      qed
    qed
  qed
qed

theorem refresh_errors_are_logged_and_redirected_witness:
  "(fst (handleTokenRefresh demo_ext ''s'' (demo_world [] [(''refreshToken'', ''r1'')])) = Inl (Redirect 302 ''/auth/login'')
    \<and> ConsoleError (RefreshExchangeFailed 401)
         \<in> set (snd (snd (handleTokenRefresh demo_ext ''s'' (demo_world [] [(''refreshToken'', ''r1'')]))))
    \<and> ConsoleError MissingRefreshToken
         \<notin> set (snd (snd (handleTokenRefresh demo_ext ''s'' (demo_world [] [(''refreshToken'', ''r1'')])))))
   \<and> fst (handleTokenRefresh demo_ext_ok ''s'' (demo_world [] [(''refreshToken'', ''r1'')])) = Inr (demo_payload (JNumber 2000000000))"
proof -
  let ?w = "demo_world [] [(''refreshToken'', ''r1'')]"
  let ?wm = "?w\<lparr>refreshingStates := (refreshingStates ?w)(''s'' \<mapsto> True)\<rparr>"
  let ?H = "handleTokenRefresh demo_ext ''s'' ?w"
  let ?K = "handleTokenRefresh demo_ext_ok ''s'' ?w"
  have idle: "\<not> is_refreshing ?w ''s''"
    by (simp add: is_refreshing_def demo_world_def)
  have runH: "?H = (fst ?H, fst (snd ?H), snd (snd ?H))" by simp
  have runK: "?K = (fst ?K, fst (snd ?K), snd (snd ?K))" by simp
  have rt: "nonempty (cookies ?w ''refreshToken'') = Some ''r1''"
    by (simp add: nonempty_def demo_world_def)
  have exH: "fetch demo_ext ''/auth/refresh'' (refresh_headers ''r1'') ?wm
               = (Inr \<lparr>ok = False, status = 401\<rparr>, ?wm)"
    by (simp add: demo_ext_def)
  let ?w1 = "?wm\<lparr>cookies := (cookies ?wm)(''accessToken'' \<mapsto> ''fresh'')\<rparr>"
  have exK: "fetch demo_ext_ok ''/auth/refresh'' (refresh_headers ''r1'') ?wm
               = (Inr \<lparr>ok = True, status = 200\<rparr>, ?w1)"
    by (simp add: demo_ext_ok_def demo_ext_def)
  have tok: "nonempty (cookies ?w1 ''accessToken'') = Some ''fresh''"
    by (simp add: nonempty_def)
  have val: "ValidateAccess demo_ext_ok ?w1 ''fresh'' = Inr (demo_payload (JNumber 2000000000))"
    by (simp add: run_defs demo_defs)
  note H = refresh_errors_are_logged_and_redirected[OF idle runH refl]
  note K = refresh_errors_are_logged_and_redirected[OF idle runK refl]
  from H rt exH
  have a: "ConsoleError (RefreshExchangeFailed 401) \<in> set (snd (snd ?H))" by simp
  from H rt have b: "ConsoleError MissingRefreshToken \<notin> set (snd (snd ?H))" by simp
  from H a have c: "fst ?H = Inl (Redirect 302 ''/auth/login'')" by blast
  from K rt exK tok val
  have d: "fst ?K = Inr (demo_payload (JNumber 2000000000))" by simp
  from a b c d show ?thesis by blast
qed

subsection \<open>C5: a credential about to expire\<close>

text \<open>
  The guard of line 25 lets the number 0 through without the expiry test. For any
  verification whatsoever, the test rejects a numeric expiry other than 0 that is less than
  30 seconds after the clock.
\<close>

lemma ValidateAccess_about_to_expire:
  assumes "importSPKI X (or_default (env_spki X) '''') (or_default (env_alg X) ''RS256'') = Inr k"
    and "jwtVerify X jwt k ''auth:auth'' (clock w) = Inr p"
    and "exp_claim p = JNumber e"
    and "e \<noteq> 0"
    and "e - of_int (clock w div 1000) < 30"
  shows "ValidateAccess X w jwt = Inl AboutToExpire"
  using assms by (simp add: ValidateAccess_def EXPIRY_BUFFER_def)

lemma demo_rejects_expired: "rejects_expired demo_ext"
  by (auto simp: rejects_expired_def demo_ext_def demo_verify_def demo_check_def demo_payload_def
           split: if_splits)

text \<open>
  C5: every credential whose signature and issuer verify and whose expiry claim is less
  than 30 seconds after the clock is rejected as about to expire, and no claims are
  returned. The verification is one that rejects expired tokens, as \<^verbatim>\<open>jwtVerify\<close> does
  before line 25 is reached, and the clock is not before 1970: an accepted numeric expiry
  is then positive, and passes the guard of line 25.
\<close>

theorem about_to_expire_rejected:
  assumes jose: "rejects_expired X"
    and epoch: "0 \<le> clock w"
    and key: "importSPKI X (or_default (env_spki X) '''') (or_default (env_alg X) ''RS256'') = Inr k"
    and verified: "jwtVerify X jwt k ''auth:auth'' (clock w) = Inr p"
    and numeric: "exp_claim p = JNumber e"
    and soon: "e - of_int (clock w div 1000) < 30"
  shows "ValidateAccess X w jwt = Inl AboutToExpire"
proof -
  from jose verified numeric have "of_int (clock w div 1000) < e"
    unfolding rejects_expired_def by blast
  moreover from epoch have "(0::rat) \<le> of_int (clock w div 1000)"
    by (simp add: pos_imp_zdiv_nonneg_iff)
  ultimately have "e \<noteq> 0" by linarith
  from ValidateAccess_about_to_expire[OF key verified numeric this soon] show ?thesis .
qed

theorem about_to_expire_rejected_witness:
  "ValidateAccess demo_ext (demo_world [] []) ''stale'' = Inl AboutToExpire"
proof -
  have c: "0 \<le> clock (demo_world [] [])"
    by (simp add: demo_world_def)
  have k: "importSPKI demo_ext (or_default (env_spki demo_ext) [])
             (or_default (env_alg demo_ext) ''RS256'') = Inr (CryptoKey ''SPKI'' ''RS256'')"
    by (simp add: demo_ext_def or_default_def nonempty_def)
  have v: "jwtVerify demo_ext ''stale'' (CryptoKey ''SPKI'' ''RS256'') ''auth:auth''
             (clock (demo_world [] [])) = Inr (demo_payload (JNumber 1700000010))"
    by (simp add: demo_ext_def demo_verify_def demo_check_def demo_world_def)
  have e: "exp_claim (demo_payload (JNumber 1700000010)) = JNumber 1700000010"
    by (simp add: demo_payload_def)
  have lt: "(1700000010::rat) - of_int (clock (demo_world [] []) div 1000) < 30"
    by (simp add: demo_world_def)
  from about_to_expire_rejected[OF demo_rejects_expired c k v e lt] show ?thesis .
qed

subsection \<open>C8: a credential far from expiry\<close>

text \<open>
  C8: every credential whose signature and issuer verify and whose expiry claim lies more
  than 30 seconds after the clock is accepted, and the result is the decoded payload.
\<close>

theorem far_expiry_returns_payload:
  assumes "importSPKI X (or_default (env_spki X) '''') (or_default (env_alg X) ''RS256'') = Inr k"
    and "jwtVerify X jwt k ''auth:auth'' (clock w) = Inr p"
    and "exp_claim p = JNumber e"
    and "e - of_int (clock w div 1000) > 30"
  shows "ValidateAccess X w jwt = Inr p"
  using assms by (simp add: ValidateAccess_def EXPIRY_BUFFER_def)

theorem far_expiry_returns_payload_witness:
  "ValidateAccess demo_ext (demo_world [] []) ''fresh'' = Inr (demo_payload (JNumber 2000000000))"
proof -
  have k: "importSPKI demo_ext (or_default (env_spki demo_ext) [])
             (or_default (env_alg demo_ext) ''RS256'') = Inr (CryptoKey ''SPKI'' ''RS256'')"
    by (simp add: demo_ext_def or_default_def nonempty_def)
  have v: "jwtVerify demo_ext ''fresh'' (CryptoKey ''SPKI'' ''RS256'') ''auth:auth''
             (clock (demo_world [] [])) = Inr (demo_payload (JNumber 2000000000))"
    by (simp add: demo_ext_def demo_verify_def demo_check_def demo_world_def)
  have e: "exp_claim (demo_payload (JNumber 2000000000)) = JNumber 2000000000"
    by (simp add: demo_payload_def)
  have gt: "(2000000000::rat) - of_int (clock (demo_world [] []) div 1000) > 30"
    by (simp add: demo_world_def)
  from far_expiry_returns_payload[OF k v e gt] show ?thesis .
qed

subsection \<open>C10: a payload without a numeric expiry\<close>

text \<open>
  C10: when signature and issuer verify and the payload has no numeric expiry claim, the
  expiry test is skipped and the payload is returned; such a credential is never rejected
  as about to expire.
\<close>

theorem no_numeric_expiry_never_about_to_expire:
  assumes "importSPKI X (or_default (env_spki X) '''') (or_default (env_alg X) ''RS256'') = Inr k"
    and "jwtVerify X jwt k ''auth:auth'' (clock w) = Inr p"
    and "\<not> is_number (exp_claim p)"
  shows "ValidateAccess X w jwt = Inr p \<and> ValidateAccess X w jwt \<noteq> Inl AboutToExpire"
  using assms by (cases "exp_claim p") (simp_all add: ValidateAccess_def)

theorem no_numeric_expiry_never_about_to_expire_witness:
  "ValidateAccess demo_ext (demo_world [] []) ''noexp'' = Inr (demo_payload JUndefined)"
proof -
  have k: "importSPKI demo_ext (or_default (env_spki demo_ext) [])
             (or_default (env_alg demo_ext) ''RS256'') = Inr (CryptoKey ''SPKI'' ''RS256'')"
    by (simp add: demo_ext_def or_default_def nonempty_def)
  have v: "jwtVerify demo_ext ''noexp'' (CryptoKey ''SPKI'' ''RS256'') ''auth:auth''
             (clock (demo_world [] [])) = Inr (demo_payload JUndefined)"
    by (simp add: demo_ext_def demo_verify_def demo_check_def demo_world_def)
  have n: "\<not> is_number (exp_claim (demo_payload JUndefined))"
    by (simp add: demo_payload_def)
  from no_numeric_expiry_never_about_to_expire[OF k v n] show ?thesis by simp
qed

subsection \<open>C6: the caller that reaches the cap\<close>



subsection \<open>C7: a request without credentials\<close>

text \<open>
  C7: for a request with neither an access credential nor a refresh credential,
  \<^verbatim>\<open>getUserFromToken\<close> returns null without throwing and without touching the world, and
  \<^verbatim>\<open>requireAuth\<close> throws the redirect with status 302 to \<^verbatim>\<open>/auth/login?returnUrl=\<close> followed by
  the percent-encoded path and query string of the request.
\<close>

theorem no_credentials_redirect:
  assumes "nonempty (cookies w ''accessToken'') = None"
    and "nonempty (cookies w ''refreshToken'') = None"
  shows "getUserFromToken X ev w = (Inr None, w, [])
       \<and> requireAuth X ev w =
           (Inl (Redirect 302
                  (''/auth/login?returnUrl='' @ encodeURIComponent (url_pathname ev @ url_search ev))),
            w, [])"
  using assms by (simp add: getUserFromToken_def requireAuth_def Let_def)

theorem no_credentials_redirect_witness:
  "getUserFromToken demo_ext demo_event (demo_world [] []) = (Inr None, demo_world [] [], [])
   \<and> requireAuth demo_ext demo_event (demo_world [] [])
     = (Inl (Redirect 302 ''/auth/login?returnUrl=%2Fdashboard%3Ftab%3D1''), demo_world [] [], [])"
proof -
  have a: "nonempty (cookies (demo_world [] []) ''accessToken'') = None"
    by (simp add: nonempty_def demo_world_def)
  have r: "nonempty (cookies (demo_world [] []) ''refreshToken'') = None"
    by (simp add: nonempty_def demo_world_def)
  have u: "encodeURIComponent (url_pathname demo_event @ url_search demo_event)
             = ''%2Fdashboard%3Ftab%3D1''"
    by (simp add: uri_defs demo_event_def)
  from no_credentials_redirect[of "demo_world [] []" demo_ext demo_event, OF a r] u
  show ?thesis by simp
qed

subsection \<open>C9: an invalid access credential and no refresh credential\<close>

text \<open>
  C9: when an access credential is present, the validator rejects it (for whatever reason)
  and no refresh credential is present, \<^verbatim>\<open>getUserFromToken\<close> returns null; the error of the
  validator is not passed on, and the world is untouched.
\<close>

theorem invalid_access_without_refresh_is_null:
  assumes "nonempty (cookies w ''accessToken'') = Some tok"
    and "ValidateAccess X w tok = Inl e"
    and "nonempty (cookies w ''refreshToken'') = None"
  shows "getUserFromToken X ev w = (Inr None, w, [Validate tok])"
  using assms by (simp add: getUserFromToken_def Let_def)

theorem invalid_access_without_refresh_is_null_witness:
  "getUserFromToken demo_ext demo_event (demo_world [] [(''accessToken'', ''garbage'')])
     = (Inr None, demo_world [] [(''accessToken'', ''garbage'')], [Validate ''garbage''])"
proof -
  let ?w = "demo_world [] [(''accessToken'', ''garbage'')]"
  have a: "nonempty (cookies ?w ''accessToken'') = Some ''garbage''"
    by (simp add: nonempty_def demo_world_def)
  have v: "ValidateAccess demo_ext ?w ''garbage'' = Inl (VerifyError ''signature verification failed'')"
    by (simp add: run_defs demo_defs)
  have r: "nonempty (cookies ?w ''refreshToken'') = None"
    by (simp add: nonempty_def demo_world_def)
  from invalid_access_without_refresh_is_null[OF a v r] show ?thesis .
qed

end
